theory Spec2Isabelle
  imports Main "HOL-Library.Word" "HOL-Library.Sublist"
begin

section \<open>The DNS record resource of the Porkbun provider\<close>

text \<open>
  A shallow embedding of \<^verbatim>\<open>internal/provider/resource_dns_record.go\<close>: the two retry
  executors \<^verbatim>\<open>retry\<close> and \<^verbatim>\<open>retrySingleReturn\<close>, the classification helper
  \<^verbatim>\<open>isRetryable\<close>, and the resource operations Create, Read, Update and Delete.
\<close>

subsection \<open>Error values\<close>

text \<open>
  The executors look at an \<^verbatim>\<open>error\<close> in three ways: the type assertion
  \<^verbatim>\<open>err.(porkbun.Status)\<close> with its field \<^verbatim>\<open>Status\<close>, the type assertion
  \<^verbatim>\<open>err.(*porkbun.ServerError)\<close> with its field \<^verbatim>\<open>StatusCode\<close>, and the text of
  \<^verbatim>\<open>Error()\<close>. An error value is modelled by exactly these observations: the second
  argument of every constructor is the text its \<^verbatim>\<open>Error()\<close> method returns.
\<close>

datatype goerror =
    StatusErr string string
  | ServerErr int string
  | OtherErr string

fun Error :: "goerror \<Rightarrow> string" where
  "Error (StatusErr st txt) = txt"
| "Error (ServerErr code txt) = txt"
| "Error (OtherErr txt) = txt"

text \<open>The two type assertions: the asserted field when the assertion is \<^verbatim>\<open>ok\<close>.\<close>

fun as_Status :: "goerror \<Rightarrow> string option" where
  "as_Status (StatusErr st txt) = Some st"
| "as_Status e = None"

fun as_ServerError :: "goerror \<Rightarrow> int option" where
  "as_ServerError (ServerErr code txt) = Some code"
| "as_ServerError e = None"

subsection \<open>Formatting\<close>

text \<open>The verb \<^verbatim>\<open>%d\<close> (and \<^verbatim>\<open>fmt.Sprint\<close>) on an \<^verbatim>\<open>int\<close>: the decimal numeral.\<close>

definition digit_char :: "nat \<Rightarrow> char" where
  "digit_char d = char_of (48 + d)"

function show_nat :: "nat \<Rightarrow> string" where
  "show_nat n = (if n < 10 then [digit_char n] else show_nat (n div 10) @ [digit_char (n mod 10)])"
  by pat_completeness auto
termination
  by (relation "measure (\<lambda>n. n)") auto

declare show_nat.simps [simp del]

definition show_int :: "int \<Rightarrow> string" where
  "show_int i = (if i < 0 then CHR ''-'' # show_nat (nat (- i)) else show_nat (nat i))"

text \<open>The verb \<^verbatim>\<open>%s\<close> on a value of type \<^verbatim>\<open>error\<close>, which may be \<^verbatim>\<open>nil\<close>.\<close>

fun fmt_error :: "goerror option \<Rightarrow> string" where
  "fmt_error None = ''%!s(<nil>)''"
| "fmt_error (Some e) = Error e"

text \<open>\<^verbatim>\<open>fmt.Errorf\<close> without \<^verbatim>\<open>%w\<close> builds an error that is neither of the two asserted shapes.\<close>

definition Errorf :: "string \<Rightarrow> goerror" where
  "Errorf txt = OtherErr txt"

subsection \<open>Package-level variables and \<^verbatim>\<open>isRetryable\<close>\<close>

definition retryableCodes :: "int list" where
  "retryableCodes = [503]"

definition isRetryable :: "int \<Rightarrow> bool" where
  "isRetryable status = (status \<in> set retryableCodes)"

subsection \<open>The retry executors\<close>

text \<open>
  The delay variable \<^verbatim>\<open>sleep\<close> is a Go \<^verbatim>\<open>int\<close>, 64 bits wide on the 64-bit targets, and
  \<^verbatim>\<open>sleep *= 2\<close> wraps around; \<^verbatim>\<open>time.Duration\<close> is an \<^verbatim>\<open>int64\<close> counting nanoseconds and
  \<^verbatim>\<open>time.Second\<close> is \<open>10\<^sup>9\<close>. The loop counter \<^verbatim>\<open>i\<close> stays below \<^verbatim>\<open>attempts\<close>, so
  \<^verbatim>\<open>i++\<close> cannot overflow and both are plain integers.
\<close>

type_synonym Duration = "64 word"

definition Second :: Duration where
  "Second = 1000000000"

text \<open>
  The operation \<^verbatim>\<open>f\<close> is a closure with effects: a function from the state of the world
  to its two results and the next state. The executors return, beside their own results,
  the arguments of their calls of \<^verbatim>\<open>time.Sleep\<close> in order (\<open>slept\<close>) and the state the last
  call of \<^verbatim>\<open>f\<close> left. \<open>result\<close> and \<open>err\<close> are the named results, which keep the values
  of the last attempt.
\<close>

function retry_loop ::
  "int \<Rightarrow> int \<Rightarrow> 64 word \<Rightarrow> ('s \<Rightarrow> ('a \<times> goerror option) \<times> 's) \<Rightarrow> 'a \<Rightarrow> goerror option \<Rightarrow>
   Duration list \<Rightarrow> 's \<Rightarrow> ('a \<times> goerror option) \<times> Duration list \<times> 's" where
  "retry_loop attempts i sleep f result err slept s =
     (if i < attempts then
        (case (if i > 0 then (slept @ [sleep * Second], sleep * 2) else (slept, sleep)) of
           (slept1, sleep1) \<Rightarrow>
             (case f s of
                ((result1, None), s1) \<Rightarrow> ((result1, None), slept1, s1)
              | ((result1, Some e), s1) \<Rightarrow>
                  if (case as_Status e of Some status \<Rightarrow> status \<noteq> ''SUCCESS'' | None \<Rightarrow> False)
                  then ((result1, Some (Errorf (''cannot be retried: '' @ Error e))), slept1, s1)
                  else if (case as_ServerError e of Some code \<Rightarrow> \<not> isRetryable code | None \<Rightarrow> False)
                  then ((result1, Some (Errorf (''received error is not retryable: '' @ Error e))),
                        slept1, s1)
                  else retry_loop attempts (i + 1) sleep1 f result1 (Some e) slept1 s1))
      else ((result,
             Some (Errorf (''after '' @ show_int attempts @ '' attempts, last error: '' @ fmt_error err))),
            slept, s))"
  by pat_completeness auto
termination
  by (relation "measure (\<lambda>(attempts, i, sleep, f, result, err, slept, s). nat (attempts - i))") auto

declare retry_loop.simps [simp del]

text \<open>\<open>zero\<close> is the zero value of the result type, which \<^verbatim>\<open>result\<close> holds before the first attempt.\<close>

definition retry ::
  "int \<Rightarrow> 64 word \<Rightarrow> ('s \<Rightarrow> ('a \<times> goerror option) \<times> 's) \<Rightarrow> 'a \<Rightarrow> 's \<Rightarrow>
   ('a \<times> goerror option) \<times> Duration list \<times> 's" where
  "retry attempts sleep f zero s = retry_loop attempts 0 sleep f zero None [] s"

text \<open>
  In \<^verbatim>\<open>retrySingleReturn\<close> the declaration \<^verbatim>\<open>err, ok := err.(*porkbun.ServerError)\<close> introduces
  a new \<^verbatim>\<open>err\<close> in the loop body; the named result \<^verbatim>\<open>err\<close>, which the last line prints,
  keeps the value \<^verbatim>\<open>f()\<close> returned. There is no assertion to \<^verbatim>\<open>porkbun.Status\<close> here.
\<close>

function retrySingleReturn_loop ::
  "int \<Rightarrow> int \<Rightarrow> 64 word \<Rightarrow> ('s \<Rightarrow> goerror option \<times> 's) \<Rightarrow> goerror option \<Rightarrow>
   Duration list \<Rightarrow> 's \<Rightarrow> goerror option \<times> Duration list \<times> 's" where
  "retrySingleReturn_loop attempts i sleep f err slept s =
     (if i < attempts then
        (case (if i > 0 then (slept @ [sleep * Second], sleep * 2) else (slept, sleep)) of
           (slept1, sleep1) \<Rightarrow>
             (case f s of
                (None, s1) \<Rightarrow> (None, slept1, s1)
              | (Some e, s1) \<Rightarrow>
                  if (case as_ServerError e of Some code \<Rightarrow> \<not> isRetryable code | None \<Rightarrow> False)
                  then (Some (Errorf (''received error is not retryable: '' @ Error e)), slept1, s1)
                  else retrySingleReturn_loop attempts (i + 1) sleep1 f (Some e) slept1 s1))
      else (Some (Errorf (''after '' @ show_int attempts @ '' attempts, last error: '' @ fmt_error err)),
            slept, s))"
  by pat_completeness auto
termination
  by (relation "measure (\<lambda>(attempts, i, sleep, f, err, slept, s). nat (attempts - i))") auto

declare retrySingleReturn_loop.simps [simp del]

definition retrySingleReturn ::
  "int \<Rightarrow> 64 word \<Rightarrow> ('s \<Rightarrow> goerror option \<times> 's) \<Rightarrow> 's \<Rightarrow> goerror option \<times> Duration list \<times> 's" where
  "retrySingleReturn attempts sleep f s = retrySingleReturn_loop attempts 0 sleep f None [] s"

subsection \<open>Library functions the operations call\<close>

text \<open>
  \<^verbatim>\<open>strings.ReplaceAll(s, old, "")\<close>: the matches of \<open>old\<close> are found from the left and do
  not overlap, and each is deleted. With an empty \<open>old\<close> the arguments \<open>old\<close> and \<open>new\<close>
  are equal and Go returns \<open>s\<close> itself.
\<close>

function ReplaceAll_empty :: "string \<Rightarrow> string \<Rightarrow> string" where
  "ReplaceAll_empty s old =
     (if old = [] then s
      else (case s of
              [] \<Rightarrow> []
            | c # cs \<Rightarrow>
                if prefix old s then ReplaceAll_empty (drop (length old) s) old
                else c # ReplaceAll_empty cs old))"
  by pat_completeness auto
termination
  by (relation "measure (\<lambda>(s, old). length s)") auto

declare ReplaceAll_empty.simps [simp del]

text \<open>
  \<^verbatim>\<open>strconv.Quote\<close>, byte by byte: the double quote and the backslash get a backslash, the
  printable ASCII bytes stand for themselves, seven control bytes have a letter escape, and
  the other bytes below \<open>0x20\<close> and \<open>0x7f\<close> are written \<^verbatim>\<open>\xNN\<close>. A byte from \<open>0x80\<close> on is
  written \<^verbatim>\<open>\xNN\<close> as well, which is what Go does where the byte does not start a valid
  UTF-8 sequence; the decoding of valid sequences and the Unicode tables that decide
  whether their rune is printed as it is are not part of this model.
\<close>

definition hex_digit :: "nat \<Rightarrow> char" where
  "hex_digit d = (if d < 10 then char_of (48 + d) else char_of (87 + d))"

definition Quote_byte :: "char \<Rightarrow> string" where
  "Quote_byte c =
     (let n = (of_char c :: nat)
      in if c = CHR 0x22 \<or> c = CHR 0x5C then [CHR 0x5C, c]
         else if 32 \<le> n \<and> n \<le> 126 then [c]
         else if n = 7 then [CHR 0x5C, CHR ''a'']
         else if n = 8 then [CHR 0x5C, CHR ''b'']
         else if n = 12 then [CHR 0x5C, CHR ''f'']
         else if n = 10 then [CHR 0x5C, CHR ''n'']
         else if n = 13 then [CHR 0x5C, CHR ''r'']
         else if n = 9 then [CHR 0x5C, CHR ''t'']
         else if n = 11 then [CHR 0x5C, CHR ''v'']
         else [CHR 0x5C, CHR ''x'', hex_digit (n div 16), hex_digit (n mod 16)])"

definition Quote :: "string \<Rightarrow> string" where
  "Quote s = CHR 0x22 # concat (map Quote_byte s) @ [CHR 0x22]"

text \<open>The text of a \<^verbatim>\<open>*strconv.NumError\<close> whose \<^verbatim>\<open>Func\<close> is \<^verbatim>\<open>Atoi\<close>.\<close>

definition NumError :: "string \<Rightarrow> string \<Rightarrow> goerror" where
  "NumError num msg = OtherErr (''strconv.Atoi: parsing '' @ Quote num @ '': '' @ msg)"

text \<open>
  The loop of \<^verbatim>\<open>strconv.ParseUint\<close> in base 10 over the bytes after the sign, from the left:
  a byte that is no decimal digit ends it with a syntax error, and a digit that takes the
  value past \<open>2\<^sup>6\<^sup>4 - 1\<close> ends it with a range error, whatever bytes follow.
\<close>

definition is_digit :: "char \<Rightarrow> bool" where
  "is_digit c = (48 \<le> (of_char c :: nat) \<and> (of_char c :: nat) \<le> 57)"

datatype parsed = Parsed int | ErrSyntax | ErrRange

fun ParseUint_loop :: "int \<Rightarrow> string \<Rightarrow> parsed" where
  "ParseUint_loop n [] = Parsed n"
| "ParseUint_loop n (c # cs) =
     (if \<not> is_digit c then ErrSyntax
      else if n * 10 + (of_char c - 48) > 2 ^ 64 - 1 then ErrRange
      else ParseUint_loop (n * 10 + (of_char c - 48)) cs)"

text \<open>
  \<^verbatim>\<open>strconv.Atoi\<close>: an optional sign and at least one decimal digit. A syntax error comes
  with the value 0; a range error, of the loop or of the signed 64-bit range, comes with
  the nearest bound of that range. (The fast path of \<^verbatim>\<open>Atoi\<close> for short texts gives the same
  results.)
\<close>

definition Atoi :: "string \<Rightarrow> int \<times> goerror option" where
  "Atoi s =
     (let neg = (s \<noteq> [] \<and> hd s = CHR ''-'');
          digits = (if s \<noteq> [] \<and> (hd s = CHR ''-'' \<or> hd s = CHR ''+'') then tl s else s)
      in if digits = [] then (0, Some (NumError s ''invalid syntax''))
         else (case ParseUint_loop 0 digits of
                 ErrSyntax \<Rightarrow> (0, Some (NumError s ''invalid syntax''))
               | ErrRange \<Rightarrow>
                   (if neg then - (2 ^ 63) else 2 ^ 63 - 1, Some (NumError s ''value out of range''))
               | Parsed un \<Rightarrow>
                   if \<not> neg \<and> un \<ge> 2 ^ 63
                   then (2 ^ 63 - 1, Some (NumError s ''value out of range''))
                   else if neg \<and> un > 2 ^ 63
                   then (- (2 ^ 63), Some (NumError s ''value out of range''))
                   else (if neg then - un else un, None)))"

subsection \<open>Data\<close>

text \<open>\<^verbatim>\<open>types.String\<close> of the plugin framework, and the resource's data.\<close>

record types_String =
  Unknown :: bool
  Null :: bool
  Value :: string

record porkbunDnsRecordResourceData =
  data_Id :: types_String
  data_Name :: types_String
  data_Type :: types_String
  data_Content :: types_String
  data_Ttl :: types_String
  data_Notes :: types_String
  data_Prio :: types_String
  data_Domain :: types_String

text \<open>\<^verbatim>\<open>porkbun.Record\<close> of the client library.\<close>

record porkbun_Record =
  Record_ID :: string
  Record_Name :: string
  Record_Type :: string
  Record_Content :: string
  Record_TTL :: string
  Record_Prio :: string
  Record_Notes :: string

datatype diagnostic =
    ErrorDiagnostic string string
  | WarningDiagnostic string string

fun is_error :: "diagnostic \<Rightarrow> bool" where
  "is_error (ErrorDiagnostic summary detail) = True"
| "is_error (WarningDiagnostic summary detail) = False"

definition HasError :: "diagnostic list \<Rightarrow> bool" where
  "HasError diags = list_ex is_error diags"

text \<open>
  The response of an operation: \<open>resp_State\<close> is \<open>None\<close> when the operation returns
  without a call of \<^verbatim>\<open>resp.State.Set\<close>, and the data it set otherwise.
\<close>

record response =
  resp_State :: "porkbunDnsRecordResourceData option"
  resp_Diagnostics :: "diagnostic list"

subsection \<open>The client and the world\<close>

text \<open>
  The four operations of the client library are parameters: functions of the state \<open>'c\<close>
  of the remote service. The world of the provider holds the package-level variable
  \<^verbatim>\<open>sleep\<close>, the remote state and the log of the client calls made so far.
\<close>

record 'c porkbun_Client =
  CreateRecord :: "string \<Rightarrow> porkbun_Record \<Rightarrow> 'c \<Rightarrow> (int \<times> goerror option) \<times> 'c"
  RetrieveRecords :: "string \<Rightarrow> 'c \<Rightarrow> (porkbun_Record list \<times> goerror option) \<times> 'c"
  EditRecord :: "string \<Rightarrow> int \<Rightarrow> porkbun_Record \<Rightarrow> 'c \<Rightarrow> goerror option \<times> 'c"
  DeleteRecord :: "string \<Rightarrow> int \<Rightarrow> 'c \<Rightarrow> goerror option \<times> 'c"

record 'c porkbunProvider =
  MaxRetries :: int
  client :: "'c porkbun_Client"

datatype api_call =
    CreateRecord_call string porkbun_Record
  | RetrieveRecords_call string
  | EditRecord_call string int porkbun_Record
  | DeleteRecord_call string int

record 'c world =
  pkg_sleep :: "64 word"
  remote :: 'c
  calls :: "api_call list"

text \<open>The package initialiser: \<^verbatim>\<open>sleep = 10\<close>.\<close>

definition init_world :: "'c \<Rightarrow> 'c world" where
  "init_world c = \<lparr>pkg_sleep = 10, remote = c, calls = []\<rparr>"

text \<open>The closures handed to the executors: one call of the client, logged.\<close>

definition call_CreateRecord ::
  "'c porkbunProvider \<Rightarrow> string \<Rightarrow> porkbun_Record \<Rightarrow> 'c world \<Rightarrow> (int \<times> goerror option) \<times> 'c world" where
  "call_CreateRecord r domain record w =
     (case CreateRecord (client r) domain record (remote w) of
        (res, c) \<Rightarrow> (res, w\<lparr>remote := c, calls := calls w @ [CreateRecord_call domain record]\<rparr>))"

definition call_EditRecord ::
  "'c porkbunProvider \<Rightarrow> string \<Rightarrow> int \<Rightarrow> porkbun_Record \<Rightarrow> 'c world \<Rightarrow> goerror option \<times> 'c world" where
  "call_EditRecord r domain intId record w =
     (case EditRecord (client r) domain intId record (remote w) of
        (res, c) \<Rightarrow> (res, w\<lparr>remote := c, calls := calls w @ [EditRecord_call domain intId record]\<rparr>))"

definition call_DeleteRecord ::
  "'c porkbunProvider \<Rightarrow> string \<Rightarrow> int \<Rightarrow> 'c world \<Rightarrow> goerror option \<times> 'c world" where
  "call_DeleteRecord r domain intId w =
     (case DeleteRecord (client r) domain intId (remote w) of
        (res, c) \<Rightarrow> (res, w\<lparr>remote := c, calls := calls w @ [DeleteRecord_call domain intId]\<rparr>))"

definition getRecords ::
  "'c porkbunProvider \<Rightarrow> string \<Rightarrow> 'c world \<Rightarrow> (porkbun_Record list \<times> goerror option) \<times> 'c world" where
  "getRecords r domain w =
     (case RetrieveRecords (client r) domain (remote w) of
        ((records, err), c) \<Rightarrow>
          ((case err of Some e \<Rightarrow> ([], Some e) | None \<Rightarrow> (records, None)),
           w\<lparr>remote := c, calls := calls w @ [RetrieveRecords_call domain]\<rparr>))"

subsection \<open>The operations of the resource\<close>

text \<open>
  A request is what \<^verbatim>\<open>req.Config.Get\<close>, \<^verbatim>\<open>req.State.Get\<close> or \<^verbatim>\<open>req.Plan.Get\<close> yields: the
  diagnostics of the decoding and the decoded data. Update also takes the text that
  \<^verbatim>\<open>req.State.GetAttribute\<close> reads from the attribute \<^verbatim>\<open>id\<close>. \<^verbatim>\<open>resp.State.Set\<close> of this
  data adds no diagnostics, and the calls of \<^verbatim>\<open>tflog.Info\<close> are left out. Every operation
  returns its response, the delays it slept and the world it leaves.
\<close>

definition payload :: "porkbunDnsRecordResourceData \<Rightarrow> porkbun_Record" where
  "payload data =
     \<lparr>Record_ID = [],
      Record_Name = Value (data_Name data),
      Record_Type = Value (data_Type data),
      Record_Content = Value (data_Content data),
      Record_TTL = Value (data_Ttl data),
      Record_Prio = Value (data_Prio data),
      Record_Notes = Value (data_Notes data)\<rparr>"

definition Create ::
  "'c porkbunProvider \<Rightarrow> diagnostic list \<times> porkbunDnsRecordResourceData \<Rightarrow> 'c world \<Rightarrow>
   response \<times> Duration list \<times> 'c world" where
  "Create r req w =
     (case req of (diags, data) \<Rightarrow>
        if HasError diags then (\<lparr>resp_State = None, resp_Diagnostics = diags\<rparr>, [], w)
        else
          (case retry (MaxRetries r) (pkg_sleep w)
                  (call_CreateRecord r (Value (data_Domain data)) (payload data)) 0 w of
             ((id_res, err), slept, w1) \<Rightarrow>
               (\<lparr>resp_State = Some (data\<lparr>data_Id := \<lparr>Unknown = False, Null = False, Value = show_int id_res\<rparr>\<rparr>),
                 resp_Diagnostics =
                   (case err of
                      Some e \<Rightarrow> diags @ [ErrorDiagnostic ''Error creating DNS Record'' (''Error: '' @ Error e)]
                    | None \<Rightarrow> diags)\<rparr>,
                slept, w1)))"

text \<open>The name that Read derives from the name of a remote record and the domain.\<close>

definition derive_name :: "string \<Rightarrow> string \<Rightarrow> string" where
  "derive_name domain name =
     (if domain = name then [] else ReplaceAll_empty name (CHR ''.'' # domain))"

text \<open>The body of the loop of Read over the records of the listing.\<close>

definition Read_record ::
  "porkbunDnsRecordResourceData \<Rightarrow> porkbun_Record \<Rightarrow> porkbunDnsRecordResourceData" where
  "Read_record data record =
     (if Record_ID record = Value (data_Id data)
      then data\<lparr>data_Content := (data_Content data)\<lparr>Value := Record_Content record\<rparr>,
                data_Name := (data_Name data)\<lparr>Value := derive_name (Value (data_Domain data)) (Record_Name record)\<rparr>,
                data_Notes := (data_Notes data)\<lparr>Value := Record_Notes record\<rparr>,
                data_Ttl := (data_Ttl data)\<lparr>Value := Record_TTL record\<rparr>,
                data_Type := (data_Type data)\<lparr>Value := Record_Type record\<rparr>\<rparr>
      else data)"

definition Read ::
  "'c porkbunProvider \<Rightarrow> diagnostic list \<times> porkbunDnsRecordResourceData \<Rightarrow> 'c world \<Rightarrow>
   response \<times> Duration list \<times> 'c world" where
  "Read r req w =
     (case req of (diags, data) \<Rightarrow>
        if HasError diags then (\<lparr>resp_State = None, resp_Diagnostics = diags\<rparr>, [], w)
        else
          (case retry (MaxRetries r) (pkg_sleep w) (getRecords r (Value (data_Domain data))) [] w of
             ((getRecordsResult, err), slept, w1) \<Rightarrow>
               (\<lparr>resp_State = Some (foldl Read_record data getRecordsResult),
                 resp_Diagnostics =
                   (case err of
                      Some e \<Rightarrow>
                        diags @ [ErrorDiagnostic
                                   (''Could not retrieve records for '' @ Value (data_Domain data) @ ''.'')
                                   (''Error: '' @ Error e)]
                    | None \<Rightarrow> diags)\<rparr>,
                slept, w1)))"

definition Update ::
  "'c porkbunProvider \<Rightarrow> diagnostic list \<times> porkbunDnsRecordResourceData \<Rightarrow> string \<Rightarrow> 'c world \<Rightarrow>
   response \<times> Duration list \<times> 'c world" where
  "Update r req recordId w =
     (case req of (diags, data) \<Rightarrow>
        if HasError diags then (\<lparr>resp_State = None, resp_Diagnostics = diags\<rparr>, [], w)
        else
          (case Atoi recordId of
             (intId, err) \<Rightarrow>
               (let diags1 =
                      (case err of
                         Some e \<Rightarrow> diags @ [ErrorDiagnostic ''Error converting ID to a string'' (''Error: '' @ Error e)]
                       | None \<Rightarrow> diags)
                in case retrySingleReturn (MaxRetries r) (pkg_sleep w)
                          (call_EditRecord r (Value (data_Domain data)) intId (payload data)) w of
                     (err2, slept, w1) \<Rightarrow>
                       (let diags2 =
                              (case err2 of
                                 Some e \<Rightarrow> diags1 @ [ErrorDiagnostic ''Error updating the record'' (''Error '' @ Error e)]
                               | None \<Rightarrow> diags1)
                        in if HasError diags2
                           then (\<lparr>resp_State = None, resp_Diagnostics = diags2\<rparr>, slept, w1)
                           else (\<lparr>resp_State =
                                    Some (data\<lparr>data_Id := \<lparr>Unknown = False, Null = False, Value = recordId\<rparr>\<rparr>),
                                  resp_Diagnostics = diags2\<rparr>,
                                 slept, w1)))))"

definition Delete ::
  "'c porkbunProvider \<Rightarrow> diagnostic list \<times> porkbunDnsRecordResourceData \<Rightarrow> 'c world \<Rightarrow>
   response \<times> Duration list \<times> 'c world" where
  "Delete r req w =
     (case req of (diags, state) \<Rightarrow>
        if HasError diags then (\<lparr>resp_State = None, resp_Diagnostics = diags\<rparr>, [], w)
        else
          (case Atoi (Value (data_Id state)) of
             (intId, err) \<Rightarrow>
               (let diags1 =
                      (case err of
                         Some e \<Rightarrow> diags @ [ErrorDiagnostic ''Error converting ID to a string'' (''Error: '' @ Error e)]
                       | None \<Rightarrow> diags)
                in case retrySingleReturn (MaxRetries r) (pkg_sleep w)
                          (call_DeleteRecord r (Value (data_Domain state)) intId) w of
                     (err2, slept, w1) \<Rightarrow>
                       (\<lparr>resp_State = None,
                         resp_Diagnostics =
                           (case err2 of
                              Some e \<Rightarrow> diags1 @ [ErrorDiagnostic ''Error deleting record'' (''Error: '' @ Error e)]
                            | None \<Rightarrow> diags1)\<rparr>,
                        slept, w1))))"

subsection \<open>Vocabulary of the properties\<close>

text \<open>
  The state after the first \<open>j\<close> calls of an operation, and what its next call returns
  (attempt \<open>j + 1\<close> of an executor that has not stopped before).
\<close>

primrec after_calls :: "('s \<Rightarrow> 'r \<times> 's) \<Rightarrow> nat \<Rightarrow> 's \<Rightarrow> 's" where
  "after_calls f 0 s = s"
| "after_calls f (Suc j) s = after_calls f j (snd (f s))"

definition attempt :: "('s \<Rightarrow> 'r \<times> 's) \<Rightarrow> 's \<Rightarrow> nat \<Rightarrow> 'r" where
  "attempt f s j = fst (f (after_calls f j s))"

text \<open>The first \<open>k\<close> delays of the exponential backoff that starts at \<open>sleep\<close> seconds.\<close>

definition backoff :: "64 word \<Rightarrow> nat \<Rightarrow> Duration list" where
  "backoff sleep k = map (\<lambda>j. sleep * 2 ^ j * Second) [0..<k]"

text \<open>
  The failures after which \<^verbatim>\<open>retry\<close> goes on: a server error with a retryable code, an
  error of neither asserted shape, and a status error whose status is \<^verbatim>\<open>SUCCESS\<close>.
\<close>

fun retryable :: "goerror \<Rightarrow> bool" where
  "retryable (StatusErr st txt) = (st = ''SUCCESS'')"
| "retryable (ServerErr code txt) = isRetryable code"
| "retryable (OtherErr txt) = True"

text \<open>
  An operation that plays a script: each call returns the next outcome of the list that is
  its state, and \<open>d\<close> once the list is used up.
\<close>

definition script_op :: "'r \<Rightarrow> 'r list \<Rightarrow> 'r \<times> 'r list" where
  "script_op d s = (case s of [] \<Rightarrow> (d, []) | x # xs \<Rightarrow> (x, xs))"

text \<open>A record of the remote listing.\<close>

definition remote_record :: "string \<Rightarrow> string \<Rightarrow> porkbun_Record" where
  "remote_record ident name =
     \<lparr>Record_ID = ident,
      Record_Name = name,
      Record_Type = ''A'',
      Record_Content = ''5.6.7.8'',
      Record_TTL = ''300'',
      Record_Prio = ''0'',
      Record_Notes = ''remote''\<rparr>"

text \<open>An operation that returns \<open>r\<close> at every call and counts its calls.\<close>

definition always :: "'r \<Rightarrow> nat \<Rightarrow> 'r \<times> nat" where
  "always r n = (r, Suc n)"

text \<open>
  Two clients whose remote state counts the calls received: one fails every call with the
  error \<open>e\<close>, the other accepts every call, creating records under the identifier
  \<open>new_id\<close> and listing \<open>records\<close>.
\<close>

definition failing_client :: "goerror \<Rightarrow> nat porkbun_Client" where
  "failing_client e =
     \<lparr>CreateRecord = (\<lambda>domain record c. ((0, Some e), Suc c)),
      RetrieveRecords = (\<lambda>domain c. (([], Some e), Suc c)),
      EditRecord = (\<lambda>domain intId record c. (Some e, Suc c)),
      DeleteRecord = (\<lambda>domain intId c. (Some e, Suc c))\<rparr>"

definition ok_client :: "int \<Rightarrow> porkbun_Record list \<Rightarrow> nat porkbun_Client" where
  "ok_client new_id records =
     \<lparr>CreateRecord = (\<lambda>domain record c. ((new_id, None), Suc c)),
      RetrieveRecords = (\<lambda>domain c. ((records, None), Suc c)),
      EditRecord = (\<lambda>domain intId record c. (None, Suc c)),
      DeleteRecord = (\<lambda>domain intId c. (None, Suc c))\<rparr>"

definition known :: "string \<Rightarrow> types_String" where
  "known v = \<lparr>Unknown = False, Null = False, Value = v\<rparr>"

text \<open>The data of the record \<^verbatim>\<open>www.example.com\<close>, stored under the identifier \<open>ident\<close>.\<close>

definition www_data :: "string \<Rightarrow> porkbunDnsRecordResourceData" where
  "www_data ident =
     \<lparr>data_Id = known ident,
      data_Name = known ''www'',
      data_Type = known ''A'',
      data_Content = known ''1.2.3.4'',
      data_Ttl = known ''600'',
      data_Notes = known [],
      data_Prio = known [],
      data_Domain = known ''example.com''\<rparr>"

text \<open>
  The orchestrator calls the operations one after the other on the same provider process:
  an invocation names the operation and its request, and \<open>run\<close> is the world after a
  list of invocations.
\<close>

datatype invocation =
    Create_inv "diagnostic list \<times> porkbunDnsRecordResourceData"
  | Read_inv "diagnostic list \<times> porkbunDnsRecordResourceData"
  | Update_inv "diagnostic list \<times> porkbunDnsRecordResourceData" string
  | Delete_inv "diagnostic list \<times> porkbunDnsRecordResourceData"

fun invoke ::
  "'c porkbunProvider \<Rightarrow> invocation \<Rightarrow> 'c world \<Rightarrow> response \<times> Duration list \<times> 'c world" where
  "invoke r (Create_inv req) w = Create r req w"
| "invoke r (Read_inv req) w = Read r req w"
| "invoke r (Update_inv req recordId) w = Update r req recordId w"
| "invoke r (Delete_inv req) w = Delete r req w"

definition run :: "'c porkbunProvider \<Rightarrow> invocation list \<Rightarrow> 'c world \<Rightarrow> 'c world" where
  "run r invs w = foldl (\<lambda>w1 iv. snd (snd (invoke r iv w1))) w invs"

section \<open>Properties\<close>

subsection \<open>The loops, one iteration at a time\<close>

lemma all_less_Suc_conv: "(\<forall>j<Suc k. P j) \<longleftrightarrow> (\<forall>j<k. P j) \<and> P k"
  by (auto simp: less_Suc_eq)

lemma show_int_3: "show_int 3 = ''3''"
  by code_simp

lemma after_calls_Suc_right: "after_calls f (Suc k) s = snd (f (after_calls f k s))"
  by (induction k arbitrary: s) simp_all

lemma attempt_Suc: "attempt f s (Suc j) = attempt f (snd (f s)) j"
  by (simp add: attempt_def)

lemma backoff_0: "backoff sl 0 = []"
  by (simp add: backoff_def)

lemma backoff_Suc: "backoff sl (Suc k) = backoff sl k @ [sl * 2 ^ k * Second]"
  by (simp add: backoff_def)

lemma backoff_Suc_shift: "backoff sl (Suc k) = sl * Second # backoff (sl * 2) k"
  unfolding backoff_def by (simp only: map_upt_Suc) (simp add: mult.assoc)

lemma retryable_checks:
  "retryable e \<longleftrightarrow>
     \<not> (case as_Status e of Some status \<Rightarrow> status \<noteq> ''SUCCESS'' | None \<Rightarrow> False) \<and>
     \<not> (case as_ServerError e of Some code \<Rightarrow> \<not> isRetryable code | None \<Rightarrow> False)"
  by (cases e) simp_all

lemma retry_loop_success:
  assumes "f s = ((r, None), s1)" "i < n"
  shows "retry_loop n i sl f res err slept s =
           ((r, None), (if i > 0 then slept @ [sl * Second] else slept), s1)"
  using assms by (subst retry_loop.simps) simp

lemma retry_loop_retryable:
  assumes "f s = ((r, Some e), s1)" "retryable e" "i < n"
  shows "retry_loop n i sl f res err slept s =
           retry_loop n (i + 1) (if i > 0 then sl * 2 else sl) f r (Some e)
             (if i > 0 then slept @ [sl * Second] else slept) s1"
  using assms by (subst retry_loop.simps) (simp add: retryable_checks)

lemma retry_loop_exhausted:
  assumes "\<not> i < n"
  shows "retry_loop n i sl f res err slept s =
           ((res, Some (Errorf (''after '' @ show_int n @ '' attempts, last error: '' @ fmt_error err))),
            slept, s)"
  using assms by (subst retry_loop.simps) simp

lemma retry_loop_skip:
  assumes "\<forall>j<m. \<exists>r e. attempt f s j = (r, Some e) \<and> retryable e" "0 < i" "i + int m \<le> n"
  shows "retry_loop n i sl f res err slept s =
           retry_loop n (i + int m) (sl * 2 ^ m) f
             (fst (case m of 0 \<Rightarrow> (res, err) | Suc m' \<Rightarrow> attempt f s m'))
             (snd (case m of 0 \<Rightarrow> (res, err) | Suc m' \<Rightarrow> attempt f s m'))
             (slept @ backoff sl m) (after_calls f m s)"
  using assms
proof (induction m arbitrary: i sl res err slept s)
  case 0
  then show ?case by (simp add: backoff_0)
next
  case (Suc m)
  from Suc.prems(1) obtain r0 e0 where a0: "attempt f s 0 = (r0, Some e0)" and r0: "retryable e0"
    by blast
  define s1 where "s1 = snd (f s)"
  have fs: "f s = ((r0, Some e0), s1)"
    using a0 by (simp add: attempt_def s1_def prod_eq_iff)
  have step: "retry_loop n i sl f res err slept s =
      retry_loop n (i + 1) (sl * 2) f r0 (Some e0) (slept @ [sl * Second]) s1"
    using retry_loop_retryable [where f = f and s = s, OF fs r0, of i n sl res err slept] Suc.prems by simp
  have rest: "\<forall>j<m. \<exists>r e. attempt f s1 j = (r, Some e) \<and> retryable e"
    using Suc.prems(1) by (auto simp: attempt_Suc s1_def)
  have last: "(case m of 0 \<Rightarrow> (r0, Some e0) | Suc m' \<Rightarrow> attempt f s1 m') = attempt f s m"
    using a0 by (cases m) (simp_all add: attempt_Suc s1_def)
  have "retry_loop n (i + 1) (sl * 2) f r0 (Some e0) (slept @ [sl * Second]) s1 =
      retry_loop n (i + 1 + int m) (sl * 2 * 2 ^ m) f
        (fst (attempt f s m)) (snd (attempt f s m))
        ((slept @ [sl * Second]) @ backoff (sl * 2) m) (after_calls f m s1)"
    using Suc.IH [OF rest, of "i + 1" "sl * 2" r0 "Some e0" "slept @ [sl * Second]"] Suc.prems
    by (simp add: last)
  with step show ?case
    by (simp add: backoff_Suc_shift s1_def add.commute add.left_commute mult.assoc)
qed

lemma retry_skip:
  assumes "\<forall>j<Suc m. \<exists>r e. attempt f s j = (r, Some e) \<and> retryable e" "int (Suc m) \<le> n"
  shows "retry n sl f zero s =
           retry_loop n (int (Suc m)) (sl * 2 ^ m) f (fst (attempt f s m)) (snd (attempt f s m))
             (backoff sl m) (after_calls f (Suc m) s)"
proof -
  from assms(1) obtain r0 e0 where a0: "attempt f s 0 = (r0, Some e0)" and r0: "retryable e0"
    by blast
  define s1 where "s1 = snd (f s)"
  have fs: "f s = ((r0, Some e0), s1)"
    using a0 by (simp add: attempt_def s1_def prod_eq_iff)
  have step: "retry n sl f zero s = retry_loop n 1 sl f r0 (Some e0) [] s1"
    unfolding retry_def
    using retry_loop_retryable [where f = f and s = s, OF fs r0, of 0 n sl zero None "[]"] assms(2) by simp
  have rest: "\<forall>j<m. \<exists>r e. attempt f s1 j = (r, Some e) \<and> retryable e"
    using assms(1) by (auto simp: attempt_Suc s1_def)
  have last: "(case m of 0 \<Rightarrow> (r0, Some e0) | Suc m' \<Rightarrow> attempt f s1 m') = attempt f s m"
    using a0 by (cases m) (simp_all add: attempt_Suc s1_def)
  show ?thesis
    using retry_loop_skip [OF rest, of 1 n sl r0 "Some e0" "[]"] assms(2) step
    by (simp add: last s1_def)
qed


lemma retry_loop_status_terminal:
  assumes "f s = ((r, Some (StatusErr st txt)), s1)" "st \<noteq> ''SUCCESS''" "i < n"
  shows "retry_loop n i sl f res err slept s =
           ((r, Some (Errorf (''cannot be retried: '' @ txt))),
            (if i > 0 then slept @ [sl * Second] else slept), s1)"
  using assms by (subst retry_loop.simps) simp

lemma retry_loop_server_terminal:
  assumes "f s = ((r, Some (ServerErr code txt)), s1)" "\<not> isRetryable code" "i < n"
  shows "retry_loop n i sl f res err slept s =
           ((r, Some (Errorf (''received error is not retryable: '' @ txt))),
            (if i > 0 then slept @ [sl * Second] else slept), s1)"
  using assms by (subst retry_loop.simps) simp

lemma isRetryable_503: "isRetryable code \<longleftrightarrow> code = 503"
  by (simp add: isRetryable_def retryableCodes_def)

lemma f_attempt: "f (after_calls f k s) = (attempt f s k, after_calls f (Suc k) s)"
  by (simp add: attempt_def after_calls_Suc_right del: after_calls.simps)

lemma retry_at:
  assumes "\<forall>j<k. \<exists>r e. attempt f s j = (r, Some e) \<and> retryable e" "int k < n"
  shows "retry n sl f zero s =
           retry_loop n (int k) (if k = 0 then sl else sl * 2 ^ (k - 1)) f
             (fst (case k of 0 \<Rightarrow> (zero, None) | Suc m \<Rightarrow> attempt f s m))
             (snd (case k of 0 \<Rightarrow> (zero, None) | Suc m \<Rightarrow> attempt f s m))
             (backoff sl (k - 1)) (after_calls f k s)"
proof (cases k)
  case 0
  then show ?thesis by (simp add: retry_def backoff_0)
next
  case (Suc m)
  then show ?thesis using retry_skip [of m f s n sl zero] assms by simp
qed

lemma rsr_loop_retryable:
  assumes "g t = (Some e, t1)" "retryable e" "i < n"
  shows "retrySingleReturn_loop n i sl g err slept t =
           retrySingleReturn_loop n (i + 1) (if i > 0 then sl * 2 else sl) g (Some e)
             (if i > 0 then slept @ [sl * Second] else slept) t1"
  using assms by (subst retrySingleReturn_loop.simps) (simp add: retryable_checks)

lemma rsr_loop_exhausted:
  assumes "\<not> i < n"
  shows "retrySingleReturn_loop n i sl g err slept t =
           (Some (Errorf (''after '' @ show_int n @ '' attempts, last error: '' @ fmt_error err)),
            slept, t)"
  using assms by (subst retrySingleReturn_loop.simps) simp

lemma rsr_loop_skip:
  assumes "\<forall>j<m. \<exists>e. attempt g t j = Some e \<and> retryable e" "0 < i" "i + int m \<le> n"
  shows "retrySingleReturn_loop n i sl g err slept t =
           retrySingleReturn_loop n (i + int m) (sl * 2 ^ m) g
             (case m of 0 \<Rightarrow> err | Suc m' \<Rightarrow> attempt g t m')
             (slept @ backoff sl m) (after_calls g m t)"
  using assms
proof (induction m arbitrary: i sl err slept t)
  case 0
  then show ?case by (simp add: backoff_0)
next
  case (Suc m)
  from Suc.prems(1) obtain e0 where a0: "attempt g t 0 = Some e0" and r0: "retryable e0"
    by blast
  define t1 where "t1 = snd (g t)"
  have gt: "g t = (Some e0, t1)"
    using a0 by (simp add: attempt_def t1_def prod_eq_iff)
  have step: "retrySingleReturn_loop n i sl g err slept t =
      retrySingleReturn_loop n (i + 1) (sl * 2) g (Some e0) (slept @ [sl * Second]) t1"
    using rsr_loop_retryable [where g = g and t = t, OF gt r0, of i n sl err slept] Suc.prems
    by simp
  have rest: "\<forall>j<m. \<exists>e. attempt g t1 j = Some e \<and> retryable e"
    using Suc.prems(1) by (auto simp: attempt_Suc t1_def)
  have last: "(case m of 0 \<Rightarrow> Some e0 | Suc m' \<Rightarrow> attempt g t1 m') = attempt g t m"
    using a0 by (cases m) (simp_all add: attempt_Suc t1_def)
  have "retrySingleReturn_loop n (i + 1) (sl * 2) g (Some e0) (slept @ [sl * Second]) t1 =
      retrySingleReturn_loop n (i + 1 + int m) (sl * 2 * 2 ^ m) g (attempt g t m)
        ((slept @ [sl * Second]) @ backoff (sl * 2) m) (after_calls g m t1)"
    using Suc.IH [OF rest, of "i + 1" "sl * 2" "Some e0" "slept @ [sl * Second]"] Suc.prems
    by (simp add: last)
  with step show ?case
    by (simp add: backoff_Suc_shift t1_def add.commute add.left_commute mult.assoc)
qed

lemma rsr_skip:
  assumes "\<forall>j<Suc m. \<exists>e. attempt g t j = Some e \<and> retryable e" "int (Suc m) \<le> n"
  shows "retrySingleReturn n sl g t =
           retrySingleReturn_loop n (int (Suc m)) (sl * 2 ^ m) g (attempt g t m)
             (backoff sl m) (after_calls g (Suc m) t)"
proof -
  from assms(1) obtain e0 where a0: "attempt g t 0 = Some e0" and r0: "retryable e0"
    by blast
  define t1 where "t1 = snd (g t)"
  have gt: "g t = (Some e0, t1)"
    using a0 by (simp add: attempt_def t1_def prod_eq_iff)
  have step: "retrySingleReturn n sl g t = retrySingleReturn_loop n 1 sl g (Some e0) [] t1"
    unfolding retrySingleReturn_def
    using rsr_loop_retryable [where g = g and t = t, OF gt r0, of 0 n sl None "[]"] assms(2)
    by simp
  have rest: "\<forall>j<m. \<exists>e. attempt g t1 j = Some e \<and> retryable e"
    using assms(1) by (auto simp: attempt_Suc t1_def)
  have last: "(case m of 0 \<Rightarrow> Some e0 | Suc m' \<Rightarrow> attempt g t1 m') = attempt g t m"
    using a0 by (cases m) (simp_all add: attempt_Suc t1_def)
  show ?thesis
    using rsr_loop_skip [OF rest, of 1 n sl "Some e0" "[]"] assms(2) step
    by (simp add: last t1_def)
qed

lemma rsr_loop_server_terminal:
  assumes "g t = (Some (ServerErr code txt), t1)" "\<not> isRetryable code" "i < n"
  shows "retrySingleReturn_loop n i sl g err slept t =
           (Some (Errorf (''received error is not retryable: '' @ txt)),
            (if i > 0 then slept @ [sl * Second] else slept), t1)"
  using assms by (subst retrySingleReturn_loop.simps) simp

lemma rsr_server_terminal_first:
  assumes "g t = (Some (ServerErr code txt), t1)" "code \<noteq> 503" "0 < n"
  shows "retrySingleReturn n sl g t =
           (Some (Errorf (''received error is not retryable: '' @ txt)), [], t1)"
  unfolding retrySingleReturn_def
  using rsr_loop_server_terminal [where g = g and t = t, OF assms(1), of 0 n sl None "[]"] assms(2,3)
  by (simp add: isRetryable_503)

lemma backoff_last:
  "0 < k \<Longrightarrow> backoff sl (k - 1) @ [sl * 2 ^ (k - 1) * Second] = backoff sl k"
  by (cases k) (simp_all add: backoff_Suc)

subsection \<open>The executors after a run of retryable failures\<close>

lemma retry_success_after:
  assumes "int k < n"
    and "\<forall>j<k. \<exists>r e. attempt f s j = (r, Some e) \<and> retryable e"
    and "attempt f s k = (v, None)"
  shows "retry n sl f zero s = ((v, None), backoff sl k, after_calls f (Suc k) s)"
proof -
  have fk: "f (after_calls f k s) = ((v, None), after_calls f (Suc k) s)"
    using assms(3) by (simp add: f_attempt del: after_calls.simps)
  show ?thesis
    unfolding retry_at [OF assms(2) assms(1)]
    using retry_loop_success [where f = f and s = "after_calls f k s", OF fk, of "int k" n]
      assms(1) backoff_last [of k sl]
    by (auto simp: backoff_0)
qed

lemma retry_exhausted_after:
  assumes "\<forall>j<Suc m. \<exists>r e. attempt f s j = (r, Some e) \<and> retryable e"
    and "attempt f s m = (r, Some e)"
  shows "retry (int (Suc m)) sl f zero s =
           ((r, Some (Errorf (''after '' @ show_int (int (Suc m)) @ '' attempts, last error: '' @ Error e))),
            backoff sl m, after_calls f (Suc m) s)"
  using retry_skip [of m f s "int (Suc m)" sl zero] assms
  by (simp add: retry_loop_exhausted del: after_calls.simps)

lemma retry_server_terminal_after:
  assumes "int k < n"
    and "\<forall>j<k. \<exists>r e. attempt f s j = (r, Some e) \<and> retryable e"
    and "attempt f s k = (r, Some (ServerErr code txt))" "\<not> isRetryable code"
  shows "retry n sl f zero s =
           ((r, Some (Errorf (''received error is not retryable: '' @ txt))),
            backoff sl k, after_calls f (Suc k) s)"
proof -
  have fk: "f (after_calls f k s) = ((r, Some (ServerErr code txt)), after_calls f (Suc k) s)"
    using assms(3) by (simp add: f_attempt del: after_calls.simps)
  show ?thesis
    unfolding retry_at [OF assms(2) assms(1)]
    using retry_loop_server_terminal [where f = f and s = "after_calls f k s", OF fk assms(4), of "int k" n]
      assms(1) backoff_last [of k sl]
    by (auto simp: backoff_0)
qed

lemma retry_status_terminal_after:
  assumes "int k < n"
    and "\<forall>j<k. \<exists>r e. attempt f s j = (r, Some e) \<and> retryable e"
    and "attempt f s k = (r, Some (StatusErr st txt))" "st \<noteq> ''SUCCESS''"
  shows "retry n sl f zero s =
           ((r, Some (Errorf (''cannot be retried: '' @ txt))),
            backoff sl k, after_calls f (Suc k) s)"
proof -
  have fk: "f (after_calls f k s) = ((r, Some (StatusErr st txt)), after_calls f (Suc k) s)"
    using assms(3) by (simp add: f_attempt del: after_calls.simps)
  show ?thesis
    unfolding retry_at [OF assms(2) assms(1)]
    using retry_loop_status_terminal [where f = f and s = "after_calls f k s", OF fk assms(4), of "int k" n]
      assms(1) backoff_last [of k sl]
    by (auto simp: backoff_0)
qed

subsection \<open>What the executors leave untouched, and their first delay\<close>

lemma retry_loop_inv:
  assumes step: "\<And>s. P s \<Longrightarrow> P (snd (f s))"
  shows "P s \<Longrightarrow> P (snd (snd (retry_loop n i sl f res err slept s)))"
proof (induction "nat (n - i)" arbitrary: i sl res err slept s)
  case 0
  then show ?case by (simp add: retry_loop_exhausted)
next
  case (Suc m)
  have lt: "i < n" and m: "m = nat (n - (i + 1))" using Suc.hyps(2) by linarith+
  have P1: "P (snd (f s))" using step Suc.prems by blast
  show ?case
    using lt P1 Suc.hyps(1) [OF m]
    by (subst retry_loop.simps) (auto split: prod.splits option.splits)
qed

lemma rsr_loop_inv:
  assumes step: "\<And>s. P s \<Longrightarrow> P (snd (g s))"
  shows "P s \<Longrightarrow> P (snd (snd (retrySingleReturn_loop n i sl g err slept s)))"
proof (induction "nat (n - i)" arbitrary: i sl err slept s)
  case 0
  then show ?case by (simp add: rsr_loop_exhausted)
next
  case (Suc m)
  have lt: "i < n" and m: "m = nat (n - (i + 1))" using Suc.hyps(2) by linarith+
  have P1: "P (snd (g s))" using step Suc.prems by blast
  show ?case
    using lt P1 Suc.hyps(1) [OF m]
    by (subst retrySingleReturn_loop.simps) (auto split: prod.splits option.splits)
qed

lemma retry_loop_slept:
  "\<exists>ds. fst (snd (retry_loop n i sl f res err slept s)) = slept @ ds \<and>
        (ds = [] \<or> hd ds = sl * Second)"
proof (induction "nat (n - i)" arbitrary: i sl res err slept s)
  case 0
  then show ?case by (simp add: retry_loop_exhausted)
next
  case (Suc m)
  have lt: "i < n" and m: "m = nat (n - (i + 1))" using Suc.hyps(2) by linarith+
  obtain r1 e1 s1 where fs: "f s = ((r1, e1), s1)" by (metis prod.exhaust)
  obtain ds where ds: "fst (snd (retry_loop n (i + 1) (if 0 < i then sl * 2 else sl) f r1 e1
        (if 0 < i then slept @ [sl * Second] else slept) s1)) =
        (if 0 < i then slept @ [sl * Second] else slept) @ ds"
      and hd: "ds = [] \<or> hd ds = (if 0 < i then sl * 2 else sl) * Second"
    using Suc.hyps(1) [OF m] by blast
  show ?case
    using lt fs ds hd
    by (subst retry_loop.simps) (auto split: prod.splits option.splits)
qed

lemma rsr_loop_slept:
  "\<exists>ds. fst (snd (retrySingleReturn_loop n i sl g err slept s)) = slept @ ds \<and>
        (ds = [] \<or> hd ds = sl * Second)"
proof (induction "nat (n - i)" arbitrary: i sl err slept s)
  case 0
  then show ?case by (simp add: rsr_loop_exhausted)
next
  case (Suc m)
  have lt: "i < n" and m: "m = nat (n - (i + 1))" using Suc.hyps(2) by linarith+
  obtain e1 s1 where gs: "g s = (e1, s1)" by (metis prod.exhaust)
  obtain ds where ds: "fst (snd (retrySingleReturn_loop n (i + 1) (if 0 < i then sl * 2 else sl) g e1
        (if 0 < i then slept @ [sl * Second] else slept) s1)) =
        (if 0 < i then slept @ [sl * Second] else slept) @ ds"
      and hd: "ds = [] \<or> hd ds = (if 0 < i then sl * 2 else sl) * Second"
    using Suc.hyps(1) [OF m] by blast
  show ?case
    using lt gs ds hd
    by (subst retrySingleReturn_loop.simps) (auto split: prod.splits option.splits)
qed

lemma retry_first_delay:
  "fst (snd (retry n sl f zero s)) = [] \<or> hd (fst (snd (retry n sl f zero s))) = sl * Second"
  using retry_loop_slept [of n 0 sl f zero None "[]" s] by (auto simp: retry_def)

lemma rsr_first_delay:
  "fst (snd (retrySingleReturn n sl g s)) = [] \<or>
   hd (fst (snd (retrySingleReturn n sl g s))) = sl * Second"
  using rsr_loop_slept [of n 0 sl g None "[]" s] by (auto simp: retrySingleReturn_def)

lemma retry_inv:
  assumes "\<And>s. P s \<Longrightarrow> P (snd (f s))" "P s"
  shows "P (snd (snd (retry n sl f zero s)))"
  unfolding retry_def using assms by (rule retry_loop_inv)

lemma rsr_inv:
  assumes "\<And>s. P s \<Longrightarrow> P (snd (g s))" "P s"
  shows "P (snd (snd (retrySingleReturn n sl g s)))"
  unfolding retrySingleReturn_def using assms by (rule rsr_loop_inv)

lemma call_CreateRecord_sleep: "pkg_sleep (snd (call_CreateRecord r d rec w)) = pkg_sleep w"
  by (simp add: call_CreateRecord_def split: prod.splits)

lemma call_EditRecord_sleep: "pkg_sleep (snd (call_EditRecord r d i rec w)) = pkg_sleep w"
  by (simp add: call_EditRecord_def split: prod.splits)

lemma call_DeleteRecord_sleep: "pkg_sleep (snd (call_DeleteRecord r d i w)) = pkg_sleep w"
  by (simp add: call_DeleteRecord_def split: prod.splits)

lemma getRecords_sleep: "pkg_sleep (snd (getRecords r d w)) = pkg_sleep w"
  by (simp add: getRecords_def split: prod.splits)

lemma Create_sleep: "pkg_sleep (snd (snd (Create r req w))) = pkg_sleep w"
proof -
  have "pkg_sleep (snd (snd (retry n sl (call_CreateRecord r d rec) z w))) = pkg_sleep w" for n sl d rec z
    by (rule retry_inv [where P = "\<lambda>x. pkg_sleep x = pkg_sleep w"]) (simp_all add: call_CreateRecord_sleep)
  then show ?thesis
    by (auto simp: Create_def split: prod.splits dest!: arg_cong [where f = "\<lambda>x. snd (snd x)"])
qed

subsection \<open>The delays as numbers\<close>

text \<open>
  A delay is the signed 64-bit number of nanoseconds handed to \<^verbatim>\<open>time.Sleep\<close>. As long as the
  product of the initial delay, the power of two and \<open>10\<^sup>9\<close> stays below \<open>2\<^sup>6\<^sup>3\<close>, it is that
  product. From the initial delay of 10 seconds this holds for the first thirty delays;
  the thirty-first product no longer fits and the word is negative.
\<close>

lemma delay_exact:
  fixes sl :: "64 word"
  assumes "0 \<le> sint sl" "sint sl * 2 ^ i * 1000000000 < 2 ^ 63"
  shows "sint (sl * 2 ^ i * Second) = sint sl * 2 ^ i * 1000000000"
proof -
  define y :: int where "y = sint sl * 2 ^ i * 1000000000"
  have nonneg: "0 \<le> y" using assms(1) by (simp add: y_def)
  have eq: "sl * 2 ^ i * Second = word_of_int y"
    by (simp add: Second_def y_def)
  have st: "sint (word_of_int z :: 64 word) = signed_take_bit 63 z" for z
    by (simp add: signed_of_int)
  have "sint (sl * 2 ^ i * Second) = sint (word_of_int y :: 64 word)"
    by (simp only: eq)
  also have "\<dots> = signed_take_bit 63 y"
    by (rule st)
  also have "\<dots> = y"
    using nonneg assms(2) by (intro signed_take_bit_int_eq_self) (simp_all add: y_def)
  finally show ?thesis
    by (simp add: y_def)
qed

lemma backoff_exact:
  assumes "j < 30"
  shows "sint ((10 :: 64 word) * 2 ^ j * Second) = 10 * 2 ^ j * 1000000000"
proof -
  define x :: int where "x = 2 ^ j"
  have b: "x \<le> 2 ^ 29"
    unfolding x_def using assms by (intro power_increasing) simp_all
  have p: "0 < x" by (simp add: x_def)
  have eq: "(10 :: 64 word) * 2 ^ j * Second = word_of_int (10 * x * 1000000000)"
    by (simp add: Second_def x_def)
  have st: "sint (word_of_int y :: 64 word) = signed_take_bit 63 y" for y
    by (simp add: signed_of_int)
  have "sint ((10 :: 64 word) * 2 ^ j * Second) = sint (word_of_int (10 * x * 1000000000) :: 64 word)"
    by (simp only: eq)
  also have "\<dots> = signed_take_bit 63 (10 * x * 1000000000)"
    by (rule st)
  also have "\<dots> = 10 * x * 1000000000"
    using b p by (intro signed_take_bit_int_eq_self) simp_all
  finally show ?thesis
    by (simp add: x_def)
qed

lemma backoff_wraps: "sint ((10 :: 64 word) * 2 ^ 30 * Second) < 0"
  by (simp add: Second_def)

subsection \<open>Backoff until success\<close>

text \<open>
  C6, as amended. When the first \<open>k\<close> attempts of \<^verbatim>\<open>retry\<close> fail with retryable failures and
  attempt \<open>k + 1\<close> succeeds, with \<open>k\<close> below the number of attempts, \<^verbatim>\<open>retry\<close> returns the
  result of that attempt with no error, has called the operation \<open>k + 1\<close> times, and has
  slept exactly \<open>k\<close> times (for \<open>k = 0\<close> not at all: the first attempt runs at once). Delay
  number \<open>i + 1\<close> is \<open>initialDelay * 2 ^ i\<close> seconds computed in the wrapping 64-bit
  arithmetic of the code; it is the integer \<open>initialDelay * 2 ^ i * 10\<^sup>9\<close> nanoseconds
  whenever the initial delay is not negative and that integer is below \<open>2\<^sup>6\<^sup>3\<close>.
\<close>

theorem retry_backoff_until_success:
  assumes "int k < maxAttempts"
    and "\<forall>j<k. \<exists>r e. attempt f s j = (r, Some e) \<and> retryable e"
    and "attempt f s k = (v, None)"
  shows "retry maxAttempts initialDelay f zero s =
           ((v, None), map (\<lambda>i. initialDelay * 2 ^ i * Second) [0..<k], after_calls f (Suc k) s) \<and>
         (\<forall>i<k. 0 \<le> sint initialDelay \<and> sint initialDelay * 2 ^ i * 1000000000 < 2 ^ 63 \<longrightarrow>
            sint (fst (snd (retry maxAttempts initialDelay f zero s)) ! i) =
              sint initialDelay * 2 ^ i * 1000000000)"
proof -
  have r: "retry maxAttempts initialDelay f zero s =
      ((v, None), map (\<lambda>i. initialDelay * 2 ^ i * Second) [0..<k], after_calls f (Suc k) s)"
    using retry_success_after [OF assms] by (simp add: backoff_def)
  show ?thesis
    unfolding r by (simp add: delay_exact)
qed

theorem retry_backoff_until_success_witness:
  "retry 5 10 (script_op (0::int, None))
     0 [(0, Some (ServerErr 503 ''status: 503'')), (0, Some (OtherErr ''timeout'')), (42, None)] =
     ((42, None), [10000000000, 20000000000], []) \<and>
   sint (fst (snd (retry 5 10 (script_op (0::int, None))
     0 [(0, Some (ServerErr 503 ''status: 503'')), (0, Some (OtherErr ''timeout'')), (42, None)])) ! 1) =
     10 * 2 ^ 1 * 1000000000"
proof -
  let ?s = "[(0::int, Some (ServerErr 503 ''status: 503'')), (0, Some (OtherErr ''timeout'')), (42, None)]"
  let ?f = "script_op (0::int, None :: goerror option)"
  have h1: "int 2 < 5" by simp
  have h2: "\<forall>j<2. \<exists>r e. attempt ?f ?s j = (r, Some e) \<and> retryable e"
    by (simp add: numeral_2_eq_2 all_less_Suc_conv attempt_def script_op_def isRetryable_def retryableCodes_def)
  have h3: "attempt ?f ?s 2 = (42, None)"
    by (simp add: numeral_2_eq_2 attempt_def script_op_def)
  note t = retry_backoff_until_success [OF h1 h2 h3, of 10 0]
  have a: "retry 5 10 ?f 0 ?s = ((42, None), [10000000000, 20000000000], [])"
    using t by (simp add: numeral_2_eq_2 numeral_3_eq_3 script_op_def Second_def)
  have "(1::nat) < 2 \<and> 0 \<le> sint (10 :: 64 word) \<and> sint (10 :: 64 word) * 2 ^ 1 * 1000000000 < 2 ^ 63"
    by simp
  with t have b: "sint (fst (snd (retry 5 10 ?f 0 ?s)) ! 1) = sint (10 :: 64 word) * 2 ^ 1 * 1000000000"
    by blast
  show ?thesis
    using a b by simp
qed

text \<open>
  Without the bound the delays are not the integers: with the initial delay 10 and 32
  attempts, 31 failures with the server code 503 and then a success give 31 delays, and
  the last of them, \<open>10 * 2 ^ 30\<close> seconds, has wrapped to a negative number of nanoseconds.
\<close>

theorem retry_backoff_wraps_counterexample:
  "int 31 < 32 \<and>
   list_all (\<lambda>j. attempt (script_op (7::int, None)) (replicate 31 (0, Some (ServerErr 503 ''status: 503''))) j =
                   (0, Some (ServerErr 503 ''status: 503'')))
     [0..<31] \<and>
   retryable (ServerErr 503 ''status: 503'') \<and>
   attempt (script_op (7::int, None)) (replicate 31 (0, Some (ServerErr 503 ''status: 503''))) 31 =
     (7, None) \<and>
   fst (retry 32 10 (script_op (7::int, None)) 0 (replicate 31 (0, Some (ServerErr 503 ''status: 503'')))) =
     (7, None) \<and>
   length (fst (snd (retry 32 10 (script_op (7::int, None)) 0
     (replicate 31 (0, Some (ServerErr 503 ''status: 503'')))))) = 31 \<and>
   sint (fst (snd (retry 32 10 (script_op (7::int, None)) 0
     (replicate 31 (0, Some (ServerErr 503 ''status: 503''))))) ! 30) = - 7709325833709551616 \<and>
   sint (fst (snd (retry 32 10 (script_op (7::int, None)) 0
     (replicate 31 (0, Some (ServerErr 503 ''status: 503''))))) ! 30) \<noteq> 10 * 2 ^ 30 * 1000000000"
  by code_simp

subsection \<open>Exhaustion\<close>

text \<open>
  C8. When all \<open>maxAttempts\<close> attempts fail with retryable failures, each executor has called
  its operation \<open>maxAttempts\<close> times and returns an error whose text is
  \<^verbatim>\<open>after <maxAttempts> attempts, last error: <text of the last failure>\<close>.
\<close>

theorem exhaustion_names_attempts_and_last_error:
  assumes "0 < maxAttempts"
    and "\<forall>j<nat maxAttempts. \<exists>r e. attempt f s j = (r, Some e) \<and> retryable e"
    and "\<forall>j<nat maxAttempts. \<exists>e. attempt g t j = Some e \<and> retryable e"
  shows "(\<exists>r e. attempt f s (nat maxAttempts - 1) = (r, Some e) \<and>
            retry maxAttempts sleep f zero s =
              ((r, Some (Errorf (''after '' @ show_int maxAttempts @ '' attempts, last error: '' @ Error e))),
               backoff sleep (nat maxAttempts - 1), after_calls f (nat maxAttempts) s)) \<and>
         (\<exists>e. attempt g t (nat maxAttempts - 1) = Some e \<and>
            retrySingleReturn maxAttempts sleep g t =
              (Some (Errorf (''after '' @ show_int maxAttempts @ '' attempts, last error: '' @ Error e)),
               backoff sleep (nat maxAttempts - 1), after_calls g (nat maxAttempts) t))"
proof -
  obtain m where m: "nat maxAttempts = Suc m"
    using assms(1) by (cases "nat maxAttempts") simp_all
  then have n: "maxAttempts = int (Suc m)" using assms(1) by linarith
  from assms(2) m obtain r e where fe: "attempt f s m = (r, Some e)" by force
  from assms(3) m obtain e' where ge: "attempt g t m = Some e'" by force
  have "retry maxAttempts sleep f zero s =
      ((r, Some (Errorf (''after '' @ show_int maxAttempts @ '' attempts, last error: '' @ Error e))),
       backoff sleep m, after_calls f (Suc m) s)"
    using retry_skip [of m f s maxAttempts sleep zero] assms(2) m n
    by (simp add: retry_loop_exhausted fe del: after_calls.simps)
  moreover have "retrySingleReturn maxAttempts sleep g t =
      (Some (Errorf (''after '' @ show_int maxAttempts @ '' attempts, last error: '' @ Error e')),
       backoff sleep m, after_calls g (Suc m) t)"
    using rsr_skip [of m g t maxAttempts sleep] assms(3) m n
    by (simp add: rsr_loop_exhausted ge del: after_calls.simps)
  ultimately show ?thesis using fe ge m by simp
qed

theorem exhaustion_names_attempts_and_last_error_witness:
  "(0::int) < 3 \<and>
   retry 3 10 (script_op (0::int, Some (ServerErr 503 ''busy''))) 0 [] =
     ((0, Some (OtherErr ''after 3 attempts, last error: busy'')), [10000000000, 20000000000], []) \<and>
   retrySingleReturn 3 10 (script_op (Some (OtherErr ''timeout''))) [] =
     (Some (OtherErr ''after 3 attempts, last error: timeout''), [10000000000, 20000000000], [])"
proof -
  let ?f = "script_op (0::int, Some (ServerErr 503 ''busy''))"
  let ?g = "script_op (Some (OtherErr ''timeout''))"
  have ac: "\<And>d j. after_calls (script_op d) j [] = []"
    subgoal for d j by (induction j) (simp_all add: script_op_def)
    done
  have h2: "\<forall>j<nat 3. \<exists>r e. attempt ?f [] j = (r, Some e) \<and> retryable e"
    by (simp add: attempt_def ac) (simp add: script_op_def isRetryable_def retryableCodes_def)
  have h3: "\<forall>j<nat 3. \<exists>e. attempt ?g [] j = Some e \<and> retryable e"
    by (simp add: attempt_def ac) (simp add: script_op_def)
  have bk: "backoff 10 2 = [10000000000, 20000000000]"
    by (simp add: backoff_def numeral_2_eq_2 Second_def)
  show ?thesis
    using exhaustion_names_attempts_and_last_error [of 3 ?f "[]" ?g "[]" 10 0] h2 h3
    by (simp add: attempt_def ac bk show_int_3 Errorf_def) (simp add: script_op_def)
qed

subsection \<open>Server errors\<close>

text \<open>
  C7. A failed attempt of \<^verbatim>\<open>retry\<close> whose error is a server error, at any position \<open>k + 1\<close>
  after \<open>k\<close> retryable failures: the code is retryable exactly when it is 503; with any
  other code \<^verbatim>\<open>retry\<close> returns at once the error
  \<^verbatim>\<open>received error is not retryable: <text>\<close>, with no further call of the operation
  and no further delay (for \<open>k = 0\<close>: one attempt and no delay); with the code 503 and
  an attempt left, the operation is called again after the next delay, and its success is
  what \<^verbatim>\<open>retry\<close> returns.
\<close>

theorem server_error_retried_only_for_503:
  assumes "int k < maxAttempts"
    and "\<forall>j<k. \<exists>r e. attempt f s j = (r, Some e) \<and> retryable e"
    and "attempt f s k = (r, Some (ServerErr code txt))"
  shows "(isRetryable code \<longleftrightarrow> code = 503) \<and>
         (code \<noteq> 503 \<longrightarrow>
            retry maxAttempts sleep f zero s =
              ((r, Some (Errorf (''received error is not retryable: '' @ txt))),
               backoff sleep k, after_calls f (Suc k) s)) \<and>
         (code = 503 \<and> int (Suc k) < maxAttempts \<and> attempt f s (Suc k) = (v, None) \<longrightarrow>
            retry maxAttempts sleep f zero s =
              ((v, None), backoff sleep (Suc k), after_calls f (Suc (Suc k)) s))"
proof (intro conjI impI)
  show "isRetryable code \<longleftrightarrow> code = 503" by (rule isRetryable_503)
next
  assume "code \<noteq> 503"
  then have "\<not> isRetryable code" by (simp add: isRetryable_503)
  with assms show "retry maxAttempts sleep f zero s =
      ((r, Some (Errorf (''received error is not retryable: '' @ txt))),
       backoff sleep k, after_calls f (Suc k) s)"
    by (rule retry_server_terminal_after)
next
  assume a: "code = 503 \<and> int (Suc k) < maxAttempts \<and> attempt f s (Suc k) = (v, None)"
  then have "retryable (ServerErr code txt)" by (simp add: isRetryable_503)
  with assms(2,3) have "\<forall>j<Suc k. \<exists>r e. attempt f s j = (r, Some e) \<and> retryable e"
    by (auto simp: all_less_Suc_conv)
  with a show "retry maxAttempts sleep f zero s =
      ((v, None), backoff sleep (Suc k), after_calls f (Suc (Suc k)) s)"
    by (intro retry_success_after) simp_all
qed

theorem server_error_retried_only_for_503_witness:
  "retry 5 10 (always (0::int, Some (ServerErr 500 ''status: 500''))) 0 0 =
     ((0, Some (OtherErr ''received error is not retryable: status: 500'')), [], 1) \<and>
   retry 5 10 (script_op (0::int, None)) 0 [(0, Some (ServerErr 503 ''status: 503'')), (7, None)] =
     ((7, None), [10000000000], [])"
proof -
  let ?f = "always (0::int, Some (ServerErr 500 ''status: 500''))"
  let ?g = "script_op (0::int, None :: goerror option)"
  let ?t = "[(0::int, Some (ServerErr 503 ''status: 503'')), (7, None)]"
  have f0: "attempt ?f 0 0 = (0, Some (ServerErr 500 ''status: 500''))"
    by (simp add: attempt_def always_def)
  have g0: "attempt ?g ?t 0 = (0, Some (ServerErr 503 ''status: 503''))"
    by (simp add: attempt_def script_op_def)
  have g1: "attempt ?g ?t (Suc 0) = (7, None)"
    by (simp add: attempt_def script_op_def)
  have "retry 5 10 ?f 0 0 =
      ((0, Some (Errorf (''received error is not retryable: '' @ ''status: 500''))),
       backoff 10 0, after_calls ?f (Suc 0) 0)"
    using server_error_retried_only_for_503 [of 0 5 ?f 0 0 500 "''status: 500''" 10 0] f0 by simp
  moreover have "retry 5 10 ?g 0 ?t = ((7, None), backoff 10 (Suc 0), after_calls ?g (Suc (Suc 0)) ?t)"
    using server_error_retried_only_for_503 [of 0 5 ?g ?t 0 503 "''status: 503''" 10 0 7] g0 g1
    by simp
  ultimately show ?thesis
    by (simp add: Errorf_def backoff_def always_def script_op_def Second_def)
qed

subsection \<open>A status error whose status is SUCCESS\<close>

text \<open>
  C10. When the first \<open>k\<close> attempts of \<^verbatim>\<open>retry\<close> fail with a \<^verbatim>\<open>porkbun.Status\<close> error whose
  status is exactly \<^verbatim>\<open>SUCCESS\<close>, none of them ends the loop: each consumes an attempt and is
  followed by a delay and the next attempt. A success of attempt \<open>k + 1\<close> is returned after
  \<open>k\<close> delays, and when \<open>k\<close> is the number of attempts the executor returns the exhaustion
  error with the text of the last of them.
\<close>

theorem status_success_failure_is_retried:
  assumes "0 < k"
    and "\<forall>j<k. \<exists>r txt. attempt f s j = (r, Some (StatusErr ''SUCCESS'' txt))"
  shows "(int k < maxAttempts \<and> attempt f s k = (v, None) \<longrightarrow>
            retry maxAttempts sleep f zero s = ((v, None), backoff sleep k, after_calls f (Suc k) s)) \<and>
         (int k = maxAttempts \<longrightarrow>
            (\<exists>r txt. attempt f s (k - 1) = (r, Some (StatusErr ''SUCCESS'' txt)) \<and>
               retry maxAttempts sleep f zero s =
                 ((r, Some (Errorf (''after '' @ show_int maxAttempts @ '' attempts, last error: '' @ txt))),
                  backoff sleep (k - 1), after_calls f k s)))"
proof (intro conjI impI)
  have all: "\<forall>j<k. \<exists>r e. attempt f s j = (r, Some e) \<and> retryable e"
    using assms(2) by fastforce
  {
    assume "int k < maxAttempts \<and> attempt f s k = (v, None)"
    with all show "retry maxAttempts sleep f zero s = ((v, None), backoff sleep k, after_calls f (Suc k) s)"
      by (intro retry_success_after) simp_all
  next
    assume n: "int k = maxAttempts"
    obtain m where m: "k = Suc m" using assms(1) by (cases k) simp_all
    from assms(2) m obtain r msg where last: "attempt f s m = (r, Some (StatusErr ''SUCCESS'' msg))"
      by blast
    have "retry (int (Suc m)) sleep f zero s =
        ((r, Some (Errorf (''after '' @ show_int (int (Suc m)) @ '' attempts, last error: '' @
                     Error (StatusErr ''SUCCESS'' msg)))),
         backoff sleep m, after_calls f (Suc m) s)"
      using all m last by (intro retry_exhausted_after) simp_all
    with n m last show "\<exists>r txt. attempt f s (k - 1) = (r, Some (StatusErr ''SUCCESS'' txt)) \<and>
        retry maxAttempts sleep f zero s =
          ((r, Some (Errorf (''after '' @ show_int maxAttempts @ '' attempts, last error: '' @ txt))),
           backoff sleep (k - 1), after_calls f k s)"
      by auto
  }
qed

theorem status_success_failure_is_retried_witness:
  "retry 5 10 (script_op (0::int, None)) 0 [(0, Some (StatusErr ''SUCCESS'' ''SUCCESS: odd'')), (7, None)] =
     ((7, None), [10000000000], []) \<and>
   retry 3 10 (always (0::int, Some (StatusErr ''SUCCESS'' ''SUCCESS: odd''))) 0 0 =
     ((0, Some (OtherErr ''after 3 attempts, last error: SUCCESS: odd'')), [10000000000, 20000000000], 3)"
proof -
  let ?f = "always (0::int, Some (StatusErr ''SUCCESS'' ''SUCCESS: odd''))"
  let ?g = "script_op (0::int, None :: goerror option)"
  let ?t = "[(0::int, Some (StatusErr ''SUCCESS'' ''SUCCESS: odd'')), (7, None)]"
  have g0: "\<forall>j<Suc 0. \<exists>r txt. attempt ?g ?t j = (r, Some (StatusErr ''SUCCESS'' txt))"
    by (simp add: attempt_def script_op_def)
  have g1: "attempt ?g ?t (Suc 0) = (7, None)"
    by (simp add: attempt_def script_op_def)
  have ac: "after_calls ?f j i = i + j" for i j
    by (induction j arbitrary: i) (simp_all add: always_def)
  have f0: "\<forall>j<3. \<exists>r txt. attempt ?f 0 j = (r, Some (StatusErr ''SUCCESS'' txt))"
    by (simp add: attempt_def always_def)
  have "retry 5 10 ?g 0 ?t = ((7, None), backoff 10 (Suc 0), after_calls ?g (Suc (Suc 0)) ?t)"
    using status_success_failure_is_retried [of "Suc 0" ?g ?t 5 7 10 0] g0 g1 by simp
  moreover have "retry 3 10 ?f 0 0 =
      ((0, Some (Errorf (''after '' @ show_int 3 @ '' attempts, last error: '' @ ''SUCCESS: odd''))),
       backoff 10 2, after_calls ?f 3 0)"
    using status_success_failure_is_retried [of 3 ?f 0 3 0 10 0] f0
    by (simp add: attempt_def always_def)
  ultimately show ?thesis
    by (simp add: Errorf_def backoff_def ac script_op_def Second_def show_int_3 numeral_2_eq_2)
qed

subsection \<open>The package-level delay\<close>

lemma Read_sleep: "pkg_sleep (snd (snd (Read r req w))) = pkg_sleep w"
proof -
  have "pkg_sleep (snd (snd (retry n sl (getRecords r d) z w))) = pkg_sleep w" for n sl d z
    by (rule retry_inv [where P = "\<lambda>x. pkg_sleep x = pkg_sleep w"]) (simp_all add: getRecords_sleep)
  then show ?thesis
    by (auto simp: Read_def split: prod.splits dest!: arg_cong [where f = "\<lambda>x. snd (snd x)"])
qed

lemma Update_sleep: "pkg_sleep (snd (snd (Update r req recordId w))) = pkg_sleep w"
proof -
  have "pkg_sleep (snd (snd (retrySingleReturn n sl (call_EditRecord r d i rec) w))) = pkg_sleep w"
    for n sl d i rec
    by (rule rsr_inv [where P = "\<lambda>x. pkg_sleep x = pkg_sleep w"]) (simp_all add: call_EditRecord_sleep)
  then show ?thesis
    by (auto simp: Update_def Let_def split: prod.splits dest!: arg_cong [where f = "\<lambda>x. snd (snd x)"])
qed

lemma Delete_sleep: "pkg_sleep (snd (snd (Delete r req w))) = pkg_sleep w"
proof -
  have "pkg_sleep (snd (snd (retrySingleReturn n sl (call_DeleteRecord r d i) w))) = pkg_sleep w"
    for n sl d i
    by (rule rsr_inv [where P = "\<lambda>x. pkg_sleep x = pkg_sleep w"]) (simp_all add: call_DeleteRecord_sleep)
  then show ?thesis
    by (auto simp: Delete_def Let_def split: prod.splits dest!: arg_cong [where f = "\<lambda>x. snd (snd x)"])
qed

lemma invoke_sleep: "pkg_sleep (snd (snd (invoke r iv w))) = pkg_sleep w"
  by (cases iv) (simp_all add: Create_sleep Read_sleep Update_sleep Delete_sleep)

lemma run_sleep: "pkg_sleep (run r invs w) = pkg_sleep w"
  unfolding run_def by (induction invs arbitrary: w) (simp_all add: invoke_sleep)

lemma Create_first_delay:
  "fst (snd (Create r req w)) = [] \<or> hd (fst (snd (Create r req w))) = pkg_sleep w * Second"
proof (cases req)
  case (Pair diags data)
  show ?thesis
    using retry_first_delay [of "MaxRetries r" "pkg_sleep w"
        "call_CreateRecord r (Value (data_Domain data)) (payload data)" 0 w]
    by (auto simp: Create_def Pair split: prod.splits)
qed

lemma Read_first_delay:
  "fst (snd (Read r req w)) = [] \<or> hd (fst (snd (Read r req w))) = pkg_sleep w * Second"
proof (cases req)
  case (Pair diags data)
  show ?thesis
    using retry_first_delay [of "MaxRetries r" "pkg_sleep w"
        "getRecords r (Value (data_Domain data))" "[]" w]
    by (auto simp: Read_def Pair split: prod.splits)
qed

lemma Update_first_delay:
  "fst (snd (Update r req recordId w)) = [] \<or>
   hd (fst (snd (Update r req recordId w))) = pkg_sleep w * Second"
proof (cases req)
  case (Pair diags data)
  show ?thesis
    using rsr_first_delay [of "MaxRetries r" "pkg_sleep w"
        "call_EditRecord r (Value (data_Domain data)) (fst (Atoi recordId)) (payload data)" w]
    by (auto simp: Update_def Pair Let_def split: prod.splits)
qed

lemma Delete_first_delay:
  "fst (snd (Delete r req w)) = [] \<or> hd (fst (snd (Delete r req w))) = pkg_sleep w * Second"
proof (cases req)
  case (Pair diags data)
  show ?thesis
    using rsr_first_delay [of "MaxRetries r" "pkg_sleep w"
        "call_DeleteRecord r (Value (data_Domain data)) (fst (Atoi (Value (data_Id data))))" w]
    by (auto simp: Delete_def Pair Let_def split: prod.splits)
qed

lemma invoke_first_delay:
  "fst (snd (invoke r iv w)) = [] \<or> hd (fst (snd (invoke r iv w))) = pkg_sleep w * Second"
  by (cases iv)
    (simp_all add: Create_first_delay Read_first_delay Update_first_delay Delete_first_delay)

text \<open>
  C5. Whatever invocations of Create, Read, Update and Delete ran before, on whatever
  provider and remote service, the package-level variable \<^verbatim>\<open>sleep\<close> still holds its
  initial value 10, and the executor call of the next invocation either does not sleep or
  sleeps 10 seconds first: the executors double their own parameter, never the variable.
\<close>

theorem backoff_state_not_carried_over:
  "pkg_sleep (run r invs (init_world c)) = 10 \<and>
   (fst (snd (invoke r iv (run r invs (init_world c)))) = [] \<or>
    hd (fst (snd (invoke r iv (run r invs (init_world c))))) = 10 * Second)"
  using invoke_first_delay [of r iv "run r invs (init_world c)"]
  by (simp add: run_sleep init_world_def)

theorem backoff_state_not_carried_over_witness:
  "pkg_sleep (run \<lparr>MaxRetries = 3, client = failing_client (ServerErr 503 ''status: 503'')\<rparr>
      [Create_inv ([], www_data []), Delete_inv ([], www_data ''10'')] (init_world 0)) = 10 \<and>
   fst (snd (invoke \<lparr>MaxRetries = 3, client = failing_client (ServerErr 503 ''status: 503'')\<rparr>
      (Update_inv ([], www_data ''10'') ''10'')
      (run \<lparr>MaxRetries = 3, client = failing_client (ServerErr 503 ''status: 503'')\<rparr>
         [Create_inv ([], www_data []), Delete_inv ([], www_data ''10'')] (init_world 0)))) =
     [10 * Second, 20 * Second]"
proof -
  let ?r = "\<lparr>MaxRetries = 3, client = failing_client (ServerErr 503 ''status: 503'')\<rparr>"
  let ?invs = "[Create_inv ([], www_data []), Delete_inv ([], www_data ''10'')]"
  have "fst (snd (invoke ?r (Update_inv ([], www_data ''10'') ''10'') (run ?r ?invs (init_world 0)))) =
      [10 * Second, 20 * Second]"
    by code_simp
  then show ?thesis
    using backoff_state_not_carried_over [of ?r ?invs 0 "Update_inv ([], www_data ''10'') ''10''"]
    by simp
qed

subsection \<open>Read of a record that is not listed\<close>

lemma foldl_Read_record_other:
  "\<forall>record\<in>set records. Record_ID record \<noteq> Value (data_Id data) \<Longrightarrow>
   foldl Read_record data records = data"
  by (induction records) (simp_all add: Read_record_def)

text \<open>
  C9. When the decoding of the stored state reports no error, the listing succeeds and no
  listed record has the stored identifier, Read sets the state to the very data it read:
  every field (name, content, notes, TTL, type, id, domain, prio) is as before, and no
  diagnostic is added.
\<close>

theorem Read_missing_record_keeps_state:
  assumes "\<not> HasError diags"
    and "retry (MaxRetries r) (pkg_sleep w) (getRecords r (Value (data_Domain data))) [] w =
           ((records, None), slept, w1)"
    and "\<forall>record\<in>set records. Record_ID record \<noteq> Value (data_Id data)"
  shows "Read r (diags, data) w = (\<lparr>resp_State = Some data, resp_Diagnostics = diags\<rparr>, slept, w1)"
  using assms by (simp add: Read_def foldl_Read_record_other)

theorem Read_missing_record_keeps_state_witness:
  "Read \<lparr>MaxRetries = 3, client = ok_client 7 [remote_record ''11'' ''a.example.com'', remote_record ''12'' ''example.com'']\<rparr>
     ([], www_data ''10'') (init_world 0) =
   (\<lparr>resp_State = Some (www_data ''10''), resp_Diagnostics = []\<rparr>, [],
    \<lparr>pkg_sleep = 10, remote = 1, calls = [RetrieveRecords_call ''example.com'']\<rparr>)"
proof -
  let ?records = "[remote_record ''11'' ''a.example.com'', remote_record ''12'' ''example.com'']"
  let ?r = "\<lparr>MaxRetries = 3, client = ok_client 7 ?records\<rparr>"
  let ?w1 = "\<lparr>pkg_sleep = 10, remote = Suc 0, calls = [RetrieveRecords_call ''example.com'']\<rparr>"
  have h1: "\<not> HasError []" by (simp add: HasError_def)
  have g: "getRecords ?r ''example.com'' (init_world 0) = ((?records, None), ?w1)"
    by (simp add: getRecords_def ok_client_def init_world_def)
  have h2: "retry (MaxRetries ?r) (pkg_sleep (init_world 0))
      (getRecords ?r (Value (data_Domain (www_data ''10'')))) [] (init_world 0) =
      ((?records, None), [], ?w1)"
    unfolding retry_def
    using retry_loop_success [where f = "getRecords ?r ''example.com''" and s = "init_world 0", OF g, of 0 3]
    by (simp add: www_data_def known_def)
  have h3: "\<forall>record\<in>set ?records. Record_ID record \<noteq> Value (data_Id (www_data ''10''))"
    by (simp add: remote_record_def www_data_def known_def)
  show ?thesis
    using Read_missing_record_keeps_state [OF h1 h2 h3] by simp
qed

subsection \<open>Where the code departs from its description\<close>

text \<open>
  C1. An operation that fails every call with a \<^verbatim>\<open>porkbun.Status\<close> error of status
  \<^verbatim>\<open>ERROR\<close>, run with three attempts: \<^verbatim>\<open>retry\<close> stops after the first call with
  \<^verbatim>\<open>cannot be retried\<close> and no delay, but \<^verbatim>\<open>retrySingleReturn\<close>, which has no check of the
  status, calls the operation three times, sleeps 10 and 20 seconds, and reports exhaustion.
\<close>

theorem retrySingleReturn_retries_status_error:
  "retry 3 10 (always (0::int, Some (StatusErr ''ERROR'' ''ERROR: Invalid domain.''))) 0 0 =
     ((0, Some (OtherErr ''cannot be retried: ERROR: Invalid domain.'')), [], 1) \<and>
   retrySingleReturn 3 10 (always (Some (StatusErr ''ERROR'' ''ERROR: Invalid domain.''))) 0 =
     (Some (OtherErr ''after 3 attempts, last error: ERROR: Invalid domain.''),
      [10000000000, 20000000000], 3)"
  by code_simp

text \<open>
  C2. Update and Delete with the stored identifier \<^verbatim>\<open>abc\<close>: \<^verbatim>\<open>strconv.Atoi\<close> fails and the
  conversion error is reported, but neither operation returns there; each goes on to call
  the client (\<^verbatim>\<open>EditRecord\<close>, \<^verbatim>\<open>DeleteRecord\<close>) with the record identifier 0.
\<close>

theorem Update_Delete_call_client_after_conversion_error:
  "Atoi ''abc'' = (0, Some (NumError ''abc'' ''invalid syntax'')) \<and>
   Update \<lparr>MaxRetries = 3, client = ok_client 7 []\<rparr> ([], www_data ''abc'') ''abc'' (init_world 0) =
     (\<lparr>resp_State = None,
       resp_Diagnostics =
         [ErrorDiagnostic ''Error converting ID to a string''
            (''Error: '' @ Error (NumError ''abc'' ''invalid syntax''))]\<rparr>,
      [],
      \<lparr>pkg_sleep = 10, remote = 1,
        calls = [EditRecord_call ''example.com'' 0 (payload (www_data ''abc''))]\<rparr>) \<and>
   Delete \<lparr>MaxRetries = 3, client = ok_client 7 []\<rparr> ([], www_data ''abc'') (init_world 0) =
     (\<lparr>resp_State = None,
       resp_Diagnostics =
         [ErrorDiagnostic ''Error converting ID to a string''
            (''Error: '' @ Error (NumError ''abc'' ''invalid syntax''))]\<rparr>,
      [],
      \<lparr>pkg_sleep = 10, remote = 1, calls = [DeleteRecord_call ''example.com'' 0]\<rparr>)"
  by code_simp

text \<open>
  C3. Create on a client whose \<^verbatim>\<open>CreateRecord\<close> fails with the server error 500: the error
  is reported as a diagnostic, and the state is set all the same, with the identifier
  \<^verbatim>\<open>0\<close> printed from the integer that came back with the error.
\<close>

theorem Create_failure_sets_identifier:
  "Create \<lparr>MaxRetries = 3, client = failing_client (ServerErr 500 ''status: 500'')\<rparr>
     ([], (www_data [])\<lparr>data_Id := \<lparr>Unknown = False, Null = True, Value = []\<rparr>\<rparr>) (init_world 0) =
     (\<lparr>resp_State = Some (www_data ''0''),
       resp_Diagnostics =
         [ErrorDiagnostic ''Error creating DNS Record''
            ''Error: received error is not retryable: status: 500'']\<rparr>,
      [],
      \<lparr>pkg_sleep = 10, remote = 1,
        calls = [CreateRecord_call ''example.com'' (payload (www_data []))]\<rparr>)"
  by code_simp

text \<open>
  C4. The name derived by Read for the remote name \<^verbatim>\<open>www.example.com.example.com\<close> in the
  domain \<^verbatim>\<open>example.com\<close> is \<^verbatim>\<open>www\<close>, not \<^verbatim>\<open>www.example.com\<close>: \<^verbatim>\<open>strings.ReplaceAll\<close>
  deletes every occurrence of \<^verbatim>\<open>.example.com\<close>, not only the one at the end. A name that
  does not end in the domain is changed as well.
\<close>

theorem derive_name_removes_every_occurrence:
  "derive_name ''example.com'' ''www.example.com.example.com'' = ''www'' \<and>
   derive_name ''example.com'' ''www.example.com.evil.org'' = ''www.evil.org''"
  by code_simp

text \<open>The two cases of the derivation that the description gives as examples.\<close>

lemma derive_name_apex: "derive_name domain domain = []"
  by (simp add: derive_name_def)

lemma derive_name_sub: "derive_name ''example.com'' ''sub.example.com'' = ''sub''"
  by code_simp

end
